theory Spec2Isabelle
  imports Main
begin

section \<open>Data model\<close>

text \<open>
  A row of the \<^verbatim>\<open>DocumentSegment\<close> table, with the columns the task reads or writes.
  The primary key \<^verbatim>\<open>id\<close> is the key under which the row is stored, so the row
  found for an identifier always carries that identifier. Timestamps are clock readings.
\<close>

record segment =
  content :: string
  index_node_id :: string
  index_node_hash :: string
  document_id :: string
  dataset_id :: string
  status :: string
  enabled :: bool
  indexing_at :: "nat option"
  completed_at :: "nat option"
  disabled_at :: "nat option"
  error :: "string option"

text \<open>The columns of the parent document that line 77 of the task inspects.\<close>

record dataset_document =
  doc_enabled :: bool
  archived :: bool
  indexing_status :: string

text \<open>The \<^verbatim>\<open>Document\<close> value built at lines 47-55: the text and its metadata entries.\<close>

record lc_document =
  page_content :: string
  metadata :: "(string \<times> string) list"

text \<open>
  The two methods the task calls on an index object. \<^verbatim>\<open>duplicate_check\<close> is passed
  at line 87 and left to its default at line 93, hence the option.
\<close>

datatype 'ix index_call =
    AddTexts 'ix "lc_document list" "bool option"
  | CreateSegmentKeywords 'ix string "string list"

text \<open>
  Everything outside the task that it reads or changes: the committed tables, the calls
  received by the index objects (oldest first) and the keys present in Redis. The dataset
  is only tested for presence and handed on, so its type is left open.
\<close>

record ('ds, 'ix) world =
  segments :: "string \<rightharpoonup> segment"
  datasets :: "string \<rightharpoonup> 'ds"
  documents :: "string \<rightharpoonup> dataset_document"
  index_calls :: "'ix index_call list"
  redis_keys :: "string set"

text \<open>
  The calls of the task that leave the process, in source order. Each of them may raise
  an exception, and a call that raises is taken to have had no effect. The calls to
  \<^verbatim>\<open>logging\<close> are left out.
\<close>

datatype site =
    QuerySegment
  | UpdateIndexing
  | CommitIndexing
  | BuildDocument
  | LoadDataset
  | LoadDocument
  | GetIndexHighQuality
  | AddTextsHighQuality
  | GetIndexEconomy
  | CreateKeywords
  | AddTextsEconomy
  | UpdateCompleted
  | CommitCompleted
  | CommitError
  | DeleteKey

text \<open>The three readings of \<^verbatim>\<open>datetime.datetime.utcnow()\<close>: lines 43, 98 and 113.\<close>

datatype stamp = IndexingAt | CompletedAt | DisabledAt

text \<open>
  What one invocation meets: \<open>fault s = Some m\<close> says that the call at \<open>s\<close> raises an
  exception whose \<^verbatim>\<open>str\<close> is \<open>m\<close>; \<open>utcnow\<close> gives the clock readings;
  \<open>get_index\<close> is \<^verbatim>\<open>IndexBuilder.get_index\<close>, which lives outside this file and
  returns an index object or \<^verbatim>\<open>None\<close>.
\<close>

record ('ds, 'ix) env =
  fault :: "site \<Rightarrow> string option"
  utcnow :: "stamp \<Rightarrow> nat"
  get_index :: "'ds \<Rightarrow> string \<Rightarrow> 'ix option"

text \<open>What reaches the caller when the task does not return.\<close>

datatype exn = NotFound string | Exception string

text \<open>The outcome of the eligibility checks of lines 57-84.\<close>

datatype 'ds eligibility = Fault string | Skip | Pass 'ds

section \<open>The task\<close>

text \<open>Line 37: \<^verbatim>\<open>f'segment_{segment.id}_indexing'\<close>.\<close>

definition indexing_cache_key :: "string \<Rightarrow> string" where
  "indexing_cache_key sid = ''segment_'' @ sid @ ''_indexing''"

text \<open>
  The session holds the segment object loaded at line 30. The updates of lines 45 and
  100 and the assignments of the handler change that object and stay pending until
  \<^verbatim>\<open>db.session.commit()\<close> succeeds; the pending state of the object then becomes the
  stored row.
\<close>

definition commit :: "string \<Rightarrow> segment \<Rightarrow> ('ds, 'ix) world \<Rightarrow> ('ds, 'ix) world" where
  "commit sid seg w = w\<lparr>segments := (segments w)(sid \<mapsto> seg)\<rparr>"

text \<open>
  The three field assignments of the task: the update parameters of lines 41-44 and of
  lines 96-99, and the attributes set by the handler at lines 112-115 for a fault
  described by \<open>m\<close>.
\<close>

definition set_indexing :: "('ds, 'ix) env \<Rightarrow> segment \<Rightarrow> segment" where
  "set_indexing e seg = seg\<lparr>status := ''indexing'', indexing_at := Some (utcnow e IndexingAt)\<rparr>"

definition set_completed :: "('ds, 'ix) env \<Rightarrow> segment \<Rightarrow> segment" where
  "set_completed e seg =
     seg\<lparr>status := ''completed'', completed_at := Some (utcnow e CompletedAt)\<rparr>"

definition set_error :: "('ds, 'ix) env \<Rightarrow> string \<Rightarrow> segment \<Rightarrow> segment" where
  "set_error e m seg =
     seg\<lparr>enabled := False,
         disabled_at := Some (utcnow e DisabledAt),
         status := ''error'',
         error := Some m\<rparr>"

text \<open>Lines 47-55.\<close>

definition build_document :: "segment \<Rightarrow> lc_document" where
  "build_document seg =
     \<lparr>page_content = content seg,
      metadata = [(''doc_id'', index_node_id seg),
                  (''doc_hash'', index_node_hash seg),
                  (''document_id'', document_id seg),
                  (''dataset_id'', dataset_id seg)]\<rparr>"

text \<open>
  Modelled from the spec: the relationships \<^verbatim>\<open>segment.dataset\<close> and
  \<^verbatim>\<open>segment.document\<close> of \<^verbatim>\<open>models.dataset\<close>, which is not part of this file.
  They resolve the segment's dataset and document references to the stored rows, or to
  \<^verbatim>\<open>None\<close> when there is no such row.
\<close>

definition segment_dataset :: "('ds, 'ix) world \<Rightarrow> segment \<Rightarrow> 'ds option" where
  "segment_dataset w seg = datasets w (dataset_id seg)"

definition segment_document :: "('ds, 'ix) world \<Rightarrow> segment \<Rightarrow> dataset_document option" where
  "segment_document w seg = documents w (document_id seg)"

text \<open>Lines 57-84.\<close>

definition check_eligibility ::
  "('ds, 'ix) env \<Rightarrow> segment \<Rightarrow> ('ds, 'ix) world \<Rightarrow> 'ds eligibility" where
  "check_eligibility e seg w =
     (case fault e LoadDataset of
        Some m \<Rightarrow> Fault m
      | None \<Rightarrow>
         (case segment_dataset w seg of
            None \<Rightarrow> Skip
          | Some ds \<Rightarrow>
             (case fault e LoadDocument of
                Some m \<Rightarrow> Fault m
              | None \<Rightarrow>
                 (case segment_document w seg of
                    None \<Rightarrow> Skip
                  | Some d \<Rightarrow>
                      if \<not> doc_enabled d \<or> archived d \<or> indexing_status d \<noteq> ''completed''
                      then Skip else Pass ds))))"

text \<open>Lines 86-87.\<close>

definition write_high_quality ::
  "('ds, 'ix) env \<Rightarrow> 'ds \<Rightarrow> lc_document \<Rightarrow> ('ds, 'ix) world
     \<Rightarrow> string option \<times> ('ds, 'ix) world" where
  "write_high_quality e ds doc w =
     (case fault e GetIndexHighQuality of
        Some m \<Rightarrow> (Some m, w)
      | None \<Rightarrow>
         (case get_index e ds ''high_quality'' of
            None \<Rightarrow> (None, w)
          | Some ix \<Rightarrow>
             (case fault e AddTextsHighQuality of
                Some m \<Rightarrow> (Some m, w)
              | None \<Rightarrow>
                 (None, w\<lparr>index_calls := index_calls w @ [AddTexts ix [doc] (Some True)]\<rparr>))))"

text \<open>Line 90: \<^verbatim>\<open>keywords and len(keywords) > 0\<close>.\<close>

definition keywords_given :: "string list option \<Rightarrow> bool" where
  "keywords_given keywords =
     (case keywords of None \<Rightarrow> False | Some ks \<Rightarrow> ks \<noteq> [] \<and> length ks > 0)"

text \<open>Lines 89-93.\<close>

definition write_economy ::
  "('ds, 'ix) env \<Rightarrow> string list option \<Rightarrow> 'ds \<Rightarrow> lc_document \<Rightarrow> segment
     \<Rightarrow> ('ds, 'ix) world \<Rightarrow> string option \<times> ('ds, 'ix) world" where
  "write_economy e keywords ds doc seg w =
     (case fault e GetIndexEconomy of
        Some m \<Rightarrow> (Some m, w)
      | None \<Rightarrow>
         (case get_index e ds ''economy'' of
            None \<Rightarrow> (None, w)
          | Some ix \<Rightarrow>
              if keywords_given keywords then
                (case fault e CreateKeywords of
                   Some m \<Rightarrow> (Some m, w)
                 | None \<Rightarrow>
                    (None, w\<lparr>index_calls := index_calls w @
                        [CreateSegmentKeywords ix (index_node_id seg) (the keywords)]\<rparr>))
              else
                (case fault e AddTextsEconomy of
                   Some m \<Rightarrow> (Some m, w)
                 | None \<Rightarrow>
                    (None, w\<lparr>index_calls := index_calls w @ [AddTexts ix [doc] None]\<rparr>))))"

text \<open>
  Lines 86-93 together: the economy tier is only looked at when the high-quality tier
  raised nothing.
\<close>

definition fan_out ::
  "('ds, 'ix) env \<Rightarrow> string list option \<Rightarrow> 'ds \<Rightarrow> lc_document \<Rightarrow> segment
     \<Rightarrow> ('ds, 'ix) world \<Rightarrow> string option \<times> ('ds, 'ix) world" where
  "fan_out e keywords ds doc seg w =
     (case write_high_quality e ds doc w of
        (Some m, w') \<Rightarrow> (Some m, w')
      | (None, w') \<Rightarrow> write_economy e keywords ds doc seg w')"

text \<open>Lines 96-101.\<close>

definition mark_completed ::
  "('ds, 'ix) env \<Rightarrow> string \<Rightarrow> segment \<Rightarrow> ('ds, 'ix) world
     \<Rightarrow> string option \<times> segment \<times> ('ds, 'ix) world" where
  "mark_completed e sid seg w =
     (case fault e UpdateCompleted of
        Some m \<Rightarrow> (Some m, seg, w)
      | None \<Rightarrow>
         (let seg' = set_completed e seg
          in case fault e CommitCompleted of
               Some m \<Rightarrow> (Some m, seg', w)
             | None \<Rightarrow> (None, seg', commit sid seg' w)))"

text \<open>
  The body of the \<^verbatim>\<open>try\<close> block, lines 41-109. The result is \<open>Some m\<close> when a call
  raised (with description \<open>m\<close>) and \<open>None\<close> when the block was left by a
  \<^verbatim>\<open>return\<close> or by reaching its end; with it come the segment object as the block left
  it and the world.
\<close>

definition try_body ::
  "('ds, 'ix) env \<Rightarrow> string list option \<Rightarrow> string \<Rightarrow> segment \<Rightarrow> ('ds, 'ix) world
     \<Rightarrow> string option \<times> segment \<times> ('ds, 'ix) world" where
  "try_body e keywords sid seg w =
     (case fault e UpdateIndexing of
        Some m \<Rightarrow> (Some m, seg, w)
      | None \<Rightarrow>
         (let seg1 = set_indexing e seg
          in case fault e CommitIndexing of
               Some m \<Rightarrow> (Some m, seg1, w)
             | None \<Rightarrow>
                (let w1 = commit sid seg1 w
                 in case fault e BuildDocument of
                      Some m \<Rightarrow> (Some m, seg1, w1)
                    | None \<Rightarrow>
                       (case check_eligibility e seg1 w1 of
                          Fault m \<Rightarrow> (Some m, seg1, w1)
                        | Skip \<Rightarrow> (None, seg1, w1)
                        | Pass ds \<Rightarrow>
                           (case fan_out e keywords ds (build_document seg1) seg1 w1 of
                              (Some m, w2) \<Rightarrow> (Some m, seg1, w2)
                            | (None, w2) \<Rightarrow> mark_completed e sid seg1 w2)))))"

text \<open>The \<^verbatim>\<open>except Exception\<close> handler, lines 110-116, for a fault described by \<open>m\<close>.\<close>

definition on_exception ::
  "('ds, 'ix) env \<Rightarrow> string \<Rightarrow> string \<Rightarrow> segment \<Rightarrow> ('ds, 'ix) world
     \<Rightarrow> string option \<times> segment \<times> ('ds, 'ix) world" where
  "on_exception e m sid seg w =
     (let seg' = set_error e m seg
      in case fault e CommitError of
           Some m' \<Rightarrow> (Some m', seg', w)
         | None \<Rightarrow> (None, seg', commit sid seg' w))"

text \<open>The \<^verbatim>\<open>try\<close> block with its handler, lines 39-116.\<close>

definition guarded ::
  "('ds, 'ix) env \<Rightarrow> string list option \<Rightarrow> string \<Rightarrow> segment \<Rightarrow> ('ds, 'ix) world
     \<Rightarrow> string option \<times> segment \<times> ('ds, 'ix) world" where
  "guarded e keywords sid seg w =
     (case try_body e keywords sid seg w of
        (None, seg1, w1) \<Rightarrow> (None, seg1, w1)
      | (Some m, seg1, w1) \<Rightarrow> on_exception e m sid seg1 w1)"

text \<open>
  The \<^verbatim>\<open>finally\<close> clause, lines 117-118, given what the guarded part left pending:
  an exception raised by the delete replaces it.
\<close>

definition finally_delete ::
  "('ds, 'ix) env \<Rightarrow> string \<Rightarrow> string option \<Rightarrow> ('ds, 'ix) world
     \<Rightarrow> (exn + unit) \<times> ('ds, 'ix) world" where
  "finally_delete e key pending w =
     (case fault e DeleteKey of
        Some m \<Rightarrow> (Inl (Exception m), w)
      | None \<Rightarrow>
         (case pending of None \<Rightarrow> Inr () | Some m \<Rightarrow> Inl (Exception m),
          w\<lparr>redis_keys := redis_keys w - {key}\<rparr>))"

text \<open>The whole task, lines 18-118.\<close>

definition create_segment_to_index_task ::
  "('ds, 'ix) env \<Rightarrow> string \<Rightarrow> string list option \<Rightarrow> ('ds, 'ix) world
     \<Rightarrow> (exn + unit) \<times> ('ds, 'ix) world" where
  "create_segment_to_index_task e segment_id keywords w =
     (case fault e QuerySegment of
        Some m \<Rightarrow> (Inl (Exception m), w)
      | None \<Rightarrow>
         (case segments w segment_id of
            None \<Rightarrow> (Inl (NotFound ''Segment not found''), w)
          | Some seg \<Rightarrow>
              if status seg \<noteq> ''waiting'' then (Inr (), w)
              else
                (case guarded e keywords segment_id seg w of
                   (pending, seg', w') \<Rightarrow>
                     finally_delete e (indexing_cache_key segment_id) pending w')))"

section \<open>Example inputs\<close>

text \<open>
  An environment in which no call raises and both index tiers are configured, and one in
  which the calls at the given sites raise with the given description.
\<close>

definition calm :: "(string, string) env" where
  "calm = \<lparr>fault = (\<lambda>s. None),
            utcnow = (\<lambda>t. case t of IndexingAt \<Rightarrow> 100 | CompletedAt \<Rightarrow> 200 | DisabledAt \<Rightarrow> 300),
            get_index = (\<lambda>ds tier. if tier = ''high_quality'' then Some ''vector''
                                     else if tier = ''economy'' then Some ''keyword_table''
                                     else None)\<rparr>"

definition failing_at :: "site list \<Rightarrow> string \<Rightarrow> (string, string) env" where
  "failing_at ss m = calm\<lparr>fault := (\<lambda>s. if s \<in> set ss then Some m else None)\<rparr>"

text \<open>
  A store with one segment \<open>S1\<close> in the given status, whose dataset and document exist
  and whose document can be indexed; the marker of \<open>S1\<close> is set.
\<close>

definition sample_segment :: "string \<Rightarrow> segment" where
  "sample_segment st =
     \<lparr>content = ''some text'', index_node_id = ''node-1'', index_node_hash = ''hash-1'',
      document_id = ''doc-1'', dataset_id = ''ds-1'', status = st, enabled = True,
      indexing_at = None, completed_at = None, disabled_at = None, error = None\<rparr>"

definition sample_world :: "string \<Rightarrow> (string, string) world" where
  "sample_world st =
     \<lparr>segments = [''S1'' \<mapsto> sample_segment st],
      datasets = [''ds-1'' \<mapsto> ''dataset one''],
      documents = [''doc-1'' \<mapsto>
         \<lparr>doc_enabled = True, archived = False, indexing_status = ''completed''\<rparr>],
      index_calls = [],
      redis_keys = {''segment_S1_indexing''}\<rparr>"

section \<open>What each stage leaves alone\<close>

lemma set_indexing_fields [simp]:
  "content (set_indexing e seg) = content seg"
  "index_node_id (set_indexing e seg) = index_node_id seg"
  "index_node_hash (set_indexing e seg) = index_node_hash seg"
  "document_id (set_indexing e seg) = document_id seg"
  "dataset_id (set_indexing e seg) = dataset_id seg"
  "status (set_indexing e seg) = ''indexing''"
  "indexing_at (set_indexing e seg) = Some (utcnow e IndexingAt)"
  by (simp_all add: set_indexing_def)

lemma set_completed_fields [simp]:
  "content (set_completed e seg) = content seg"
  "index_node_id (set_completed e seg) = index_node_id seg"
  "index_node_hash (set_completed e seg) = index_node_hash seg"
  "document_id (set_completed e seg) = document_id seg"
  "dataset_id (set_completed e seg) = dataset_id seg"
  "indexing_at (set_completed e seg) = indexing_at seg"
  "status (set_completed e seg) = ''completed''"
  "completed_at (set_completed e seg) = Some (utcnow e CompletedAt)"
  by (simp_all add: set_completed_def)

lemma set_error_fields [simp]:
  "status (set_error e m seg) = ''error''"
  "enabled (set_error e m seg) = False"
  "disabled_at (set_error e m seg) = Some (utcnow e DisabledAt)"
  "error (set_error e m seg) = Some m"
  by (simp_all add: set_error_def)

lemma build_document_set_indexing [simp]:
  "build_document (set_indexing e seg) = build_document seg"
  by (simp add: build_document_def)

lemma commit_fields [simp]:
  "segments (commit sid seg w) = (segments w)(sid \<mapsto> seg)"
  "datasets (commit sid seg w) = datasets w"
  "documents (commit sid seg w) = documents w"
  "index_calls (commit sid seg w) = index_calls w"
  "redis_keys (commit sid seg w) = redis_keys w"
  by (simp_all add: commit_def)

lemma write_high_quality_frame [simp]:
  "segments (snd (write_high_quality e ds doc w)) = segments w"
  "datasets (snd (write_high_quality e ds doc w)) = datasets w"
  "documents (snd (write_high_quality e ds doc w)) = documents w"
  "redis_keys (snd (write_high_quality e ds doc w)) = redis_keys w"
  by (simp_all add: write_high_quality_def split: option.split)

lemma write_economy_frame [simp]:
  "segments (snd (write_economy e kws ds doc seg w)) = segments w"
  "datasets (snd (write_economy e kws ds doc seg w)) = datasets w"
  "documents (snd (write_economy e kws ds doc seg w)) = documents w"
  "redis_keys (snd (write_economy e kws ds doc seg w)) = redis_keys w"
  by (simp_all add: write_economy_def split: option.split)

lemma fan_out_frame [simp]:
  "segments (snd (fan_out e kws ds doc seg w)) = segments w"
  "datasets (snd (fan_out e kws ds doc seg w)) = datasets w"
  "documents (snd (fan_out e kws ds doc seg w)) = documents w"
  "redis_keys (snd (fan_out e kws ds doc seg w)) = redis_keys w"
  by (simp_all add: fan_out_def split_beta split: option.split)

lemma mark_completed_frame [simp]:
  "datasets (snd (snd (mark_completed e sid seg w))) = datasets w"
  "documents (snd (snd (mark_completed e sid seg w))) = documents w"
  "redis_keys (snd (snd (mark_completed e sid seg w))) = redis_keys w"
  "index_calls (snd (snd (mark_completed e sid seg w))) = index_calls w"
  by (simp_all add: mark_completed_def Let_def split: option.split)

lemma on_exception_frame [simp]:
  "datasets (snd (snd (on_exception e m sid seg w))) = datasets w"
  "documents (snd (snd (on_exception e m sid seg w))) = documents w"
  "redis_keys (snd (snd (on_exception e m sid seg w))) = redis_keys w"
  "index_calls (snd (snd (on_exception e m sid seg w))) = index_calls w"
  by (simp_all add: on_exception_def Let_def split: option.split)

lemma finally_delete_frame [simp]:
  "segments (snd (finally_delete e key p w)) = segments w"
  "datasets (snd (finally_delete e key p w)) = datasets w"
  "documents (snd (finally_delete e key p w)) = documents w"
  "index_calls (snd (finally_delete e key p w)) = index_calls w"
  by (simp_all add: finally_delete_def split: option.split)

section \<open>The task on a segment that is waiting\<close>

lemma task_waiting:
  assumes "fault e QuerySegment = None" and "segments w sid = Some seg"
    and "status seg = ''waiting''"
  shows "create_segment_to_index_task e sid kws w =
           finally_delete e (indexing_cache_key sid)
             (fst (guarded e kws sid seg w)) (snd (snd (guarded e kws sid seg w)))"
  using assms by (simp add: create_segment_to_index_task_def split_beta)

lemma task_not_waiting:
  assumes "fault e QuerySegment = None" and "segments w sid = Some seg"
    and "status seg \<noteq> ''waiting''"
  shows "create_segment_to_index_task e sid kws w = (Inr (), w)"
  using assms by (simp add: create_segment_to_index_task_def)

lemma guarded_pending:
  "fst (guarded e kws sid seg w) =
     (case fst (try_body e kws sid seg w) of None \<Rightarrow> None | Some m \<Rightarrow> fault e CommitError)"
  by (simp add: guarded_def on_exception_def Let_def split_beta split: option.split)

lemma try_body_skip:
  assumes "fault e UpdateIndexing = None" and "fault e CommitIndexing = None"
    and "fault e BuildDocument = None"
    and "check_eligibility e (set_indexing e seg) (commit sid (set_indexing e seg) w) = Skip"
  shows "try_body e kws sid seg w =
           (None, set_indexing e seg, commit sid (set_indexing e seg) w)"
  using assms by (simp add: try_body_def Let_def)

lemma try_body_pass:
  assumes "fault e UpdateIndexing = None" and "fault e CommitIndexing = None"
    and "fault e BuildDocument = None"
    and "check_eligibility e (set_indexing e seg) (commit sid (set_indexing e seg) w) = Pass ds"
  shows "try_body e kws sid seg w =
           (case fst (fan_out e kws ds (build_document seg) (set_indexing e seg)
                        (commit sid (set_indexing e seg) w)) of
              Some m \<Rightarrow> (Some m, set_indexing e seg,
                          snd (fan_out e kws ds (build_document seg) (set_indexing e seg)
                                 (commit sid (set_indexing e seg) w)))
            | None \<Rightarrow> mark_completed e sid (set_indexing e seg)
                        (snd (fan_out e kws ds (build_document seg) (set_indexing e seg)
                                (commit sid (set_indexing e seg) w))))"
  using assms by (simp add: try_body_def Let_def split_beta split: option.split)

lemma check_eligibility_pass:
  assumes "fault e LoadDataset = None" and "fault e LoadDocument = None"
    and "segment_dataset w seg = Some ds" and "segment_document w seg = Some d"
    and "doc_enabled d" and "\<not> archived d" and "indexing_status d = ''completed''"
  shows "check_eligibility e (set_indexing e seg) (commit sid (set_indexing e seg) w) = Pass ds"
  using assms
  by (simp add: check_eligibility_def segment_dataset_def segment_document_def)

lemma check_eligibility_skip:
  assumes "fault e LoadDataset = None"
    and "segment_dataset w seg = None \<or> fault e LoadDocument = None"
    and "segment_dataset w seg = None
         \<or> (case segment_document w seg of
              None \<Rightarrow> True
            | Some d \<Rightarrow> \<not> doc_enabled d \<or> archived d \<or> indexing_status d \<noteq> ''completed'')"
  shows "check_eligibility e (set_indexing e seg) (commit sid (set_indexing e seg) w) = Skip"
  using assms
  by (auto simp: check_eligibility_def segment_dataset_def segment_document_def
      split: option.splits)

section \<open>The guarded block\<close>

lemma guarded_None:
  "fst (try_body e kws sid seg w) = None \<Longrightarrow> guarded e kws sid seg w = try_body e kws sid seg w"
  by (cases "try_body e kws sid seg w") (simp add: guarded_def)

lemma guarded_Some:
  "fst (try_body e kws sid seg w) = Some m \<Longrightarrow>
     guarded e kws sid seg w =
       on_exception e m sid (fst (snd (try_body e kws sid seg w)))
         (snd (snd (try_body e kws sid seg w)))"
  by (cases "try_body e kws sid seg w") (simp add: guarded_def)

lemma on_exception_eq:
  "on_exception e m sid seg w =
     (fault e CommitError, set_error e m seg,
      if fault e CommitError = None then commit sid (set_error e m seg) w else w)"
  by (simp add: on_exception_def Let_def split: option.split)

lemma try_body_None:
  "fst (try_body e kws sid seg w) = None \<Longrightarrow>
     fault e UpdateIndexing = None \<and> fault e CommitIndexing = None"
  by (cases "fault e UpdateIndexing"; cases "fault e CommitIndexing")
     (simp_all add: try_body_def Let_def)

lemma mark_completed_eq:
  "mark_completed e sid seg w =
     (if fault e UpdateCompleted \<noteq> None then (fault e UpdateCompleted, seg, w)
      else if fault e CommitCompleted \<noteq> None
        then (fault e CommitCompleted, set_completed e seg, w)
      else (None, set_completed e seg, commit sid (set_completed e seg) w))"
  by (auto simp: mark_completed_def Let_def split: option.split)

lemma try_body_stored:
  assumes "fault e UpdateIndexing = None" and "fault e CommitIndexing = None"
  shows "segments (snd (snd (try_body e kws sid seg w))) sid = Some (set_indexing e seg)
       \<or> segments (snd (snd (try_body e kws sid seg w))) sid
            = Some (set_completed e (set_indexing e seg))"
  using assms
  by (simp add: try_body_def Let_def split_beta mark_completed_eq
      split: option.split eligibility.split)

lemma try_body_object:
  "fst (snd (try_body e kws sid seg w)) = seg
   \<or> fst (snd (try_body e kws sid seg w)) = set_indexing e seg
   \<or> fst (snd (try_body e kws sid seg w)) = set_completed e (set_indexing e seg)"
  by (simp add: try_body_def Let_def split_beta mark_completed_eq
      split: option.split eligibility.split)

lemma try_body_indexing_at:
  "indexing_at (fst (snd (try_body e kws sid seg w))) =
     (if fault e UpdateIndexing = None then Some (utcnow e IndexingAt) else indexing_at seg)"
  by (simp add: try_body_def Let_def split_beta mark_completed_eq
      split: option.split eligibility.split)

lemma guarded_stored_not_waiting:
  assumes "fault e CommitError = None
           \<or> fault e UpdateIndexing = None \<and> fault e CommitIndexing = None"
  shows "\<exists>s. segments (snd (snd (guarded e kws sid seg w))) sid = Some s
             \<and> status s \<noteq> ''waiting''"
proof (cases "fst (try_body e kws sid seg w)")
  case None
  then have "fault e UpdateIndexing = None" "fault e CommitIndexing = None"
    using try_body_None [of e kws sid seg w] by simp_all
  then show ?thesis
    using try_body_stored [of e kws sid seg w] None by (auto simp: guarded_None)
next
  case (Some m)
  show ?thesis
  proof (cases "fault e CommitError")
    case None
    then show ?thesis by (simp add: guarded_Some [OF Some] on_exception_eq)
  next
    case (Some c)
    with assms have "fault e UpdateIndexing = None" "fault e CommitIndexing = None"
      by simp_all
    then show ?thesis
      using try_body_stored [of e kws sid seg w] Some \<open>fst (try_body e kws sid seg w) = Some m\<close>
      by (auto simp: guarded_Some on_exception_eq)
  qed
qed

lemma guarded_index_calls:
  "index_calls (snd (snd (guarded e kws sid seg w)))
     = index_calls (snd (snd (try_body e kws sid seg w)))"
  by (simp add: guarded_def split_beta split: option.split)

lemma task_index_calls_pass:
  assumes "fault e QuerySegment = None" and "segments w sid = Some seg"
    and "status seg = ''waiting''"
    and "fault e UpdateIndexing = None" and "fault e CommitIndexing = None"
    and "fault e BuildDocument = None"
    and "check_eligibility e (set_indexing e seg) (commit sid (set_indexing e seg) w) = Pass ds"
  shows "index_calls (snd (create_segment_to_index_task e sid kws w)) =
           index_calls (snd (fan_out e kws ds (build_document seg) (set_indexing e seg)
                                (commit sid (set_indexing e seg) w)))"
proof -
  have "index_calls (snd (snd (try_body e kws sid seg w))) =
          index_calls (snd (fan_out e kws ds (build_document seg) (set_indexing e seg)
                               (commit sid (set_indexing e seg) w)))"
    by (simp add: try_body_pass [OF assms(4-7)] split: option.split)
  then show ?thesis
    using assms(1-3) by (simp add: task_waiting guarded_index_calls)
qed

lemma write_high_quality_ok:
  assumes "fault e GetIndexHighQuality = None"
    and "get_index e ds ''high_quality'' = None \<or> fault e AddTextsHighQuality = None"
  shows "write_high_quality e ds doc w =
           (None, w\<lparr>index_calls := index_calls w @
              (case get_index e ds ''high_quality'' of
                 None \<Rightarrow> []
               | Some hx \<Rightarrow> [AddTexts hx [doc] (Some True)])\<rparr>)"
  using assms by (auto simp: write_high_quality_def split: option.split)

lemma write_high_quality_raises:
  assumes "fault e GetIndexHighQuality = None" and "get_index e ds ''high_quality'' = Some hx"
    and "fault e AddTextsHighQuality = Some m"
  shows "write_high_quality e ds doc w = (Some m, w)"
  using assms by (simp add: write_high_quality_def)

lemma write_economy_ok:
  assumes "fault e GetIndexEconomy = None"
    and "fault e CreateKeywords = None" and "fault e AddTextsEconomy = None"
  shows "write_economy e kws ds doc seg w =
           (None, w\<lparr>index_calls := index_calls w @
              (case get_index e ds ''economy'' of
                 None \<Rightarrow> []
               | Some ix \<Rightarrow>
                   [if keywords_given kws
                    then CreateSegmentKeywords ix (index_node_id seg) (the kws)
                    else AddTexts ix [doc] None])\<rparr>)"
  using assms by (auto simp: write_economy_def split: option.split)

text \<open>The definitions to unfold when the task is run on the example inputs.\<close>

lemmas sample_defs = failing_at_def calm_def sample_world_def sample_segment_def
  segment_dataset_def segment_document_def

lemmas task_defs = create_segment_to_index_task_def guarded_def try_body_def on_exception_def
  check_eligibility_def fan_out_def write_high_quality_def write_economy_def
  keywords_given_def mark_completed_def finally_delete_def build_document_def
  set_indexing_def set_completed_def set_error_def commit_def indexing_cache_key_def Let_def

section \<open>Claims\<close>

subsection \<open>The lock marker\<close>

text \<open>
  C1, as the code has it. The marker \<^verbatim>\<open>segment_<id>_indexing\<close> is deleted by the
  \<^verbatim>\<open>finally\<close> clause, so it is gone after every invocation that enters the
  \<^verbatim>\<open>try\<close> block, that is when the segment exists and is waiting: whether the block
  completes, returns early for a segment that is not eligible, or raises, and whether
  or not the handler's commit succeeds, provided the delete itself does not raise. An
  invocation stopped by the status guard of lines 34-35 returns before the key is even
  computed and leaves the keys of the lock store as they were.
\<close>

theorem lock_released_after_guarded_block:
  assumes "fault e QuerySegment = None" and "segments w sid = Some seg"
  shows "(status seg = ''waiting'' \<longrightarrow> fault e DeleteKey = None \<longrightarrow>
            indexing_cache_key sid \<notin> redis_keys (snd (create_segment_to_index_task e sid kws w)))
       \<and> (status seg \<noteq> ''waiting'' \<longrightarrow>
            redis_keys (snd (create_segment_to_index_task e sid kws w)) = redis_keys w)"
  using assms
  by (auto simp: task_waiting task_not_waiting finally_delete_def)

theorem lock_released_after_guarded_block_witness:
  "indexing_cache_key ''S1'' \<in> redis_keys (sample_world ''waiting'')
   \<and> indexing_cache_key ''S1''
        \<notin> redis_keys (snd (create_segment_to_index_task calm ''S1'' None (sample_world ''waiting'')))
   \<and> redis_keys (snd (create_segment_to_index_task calm ''S1'' None (sample_world ''completed'')))
        = redis_keys (sample_world ''completed'')"
  using lock_released_after_guarded_block
      [of calm "sample_world ''waiting''" "''S1''" "sample_segment ''waiting''" None]
    lock_released_after_guarded_block
      [of calm "sample_world ''completed''" "''S1''" "sample_segment ''completed''" None]
  by (simp add: calm_def sample_world_def sample_segment_def indexing_cache_key_def)

text \<open>
  The segment \<open>S1\<close> exists with status \<open>indexing\<close> and its marker is set: the task
  returns normally and the marker is still there.
\<close>

theorem lock_kept_by_status_guard:
  "segments (sample_world ''indexing'') ''S1'' \<noteq> None
   \<and> fst (create_segment_to_index_task calm ''S1'' None (sample_world ''indexing'')) = Inr ()
   \<and> indexing_cache_key ''S1''
        \<in> redis_keys (snd (create_segment_to_index_task calm ''S1'' None (sample_world ''indexing'')))"
  by (simp add: create_segment_to_index_task_def calm_def sample_world_def sample_segment_def
        indexing_cache_key_def)

subsection \<open>What reaches the caller\<close>

text \<open>
  C2, as the code has it. When the query finds no row, the task raises
  \<^verbatim>\<open>NotFound('Segment not found')\<close> and changes nothing. Whatever is raised inside the
  \<^verbatim>\<open>try\<close> block is caught by the handler and is not raised again. The calls outside
  the block are not guarded: an exception that reaches the caller is either that
  \<^verbatim>\<open>NotFound\<close>, or one raised by the query of line 30, by the handler's own commit
  at line 116, or by the delete of line 118. So when these three calls succeed and the
  segment exists, the task returns normally.
\<close>

theorem faults_reaching_the_caller:
  "(fault e QuerySegment = None \<longrightarrow> segments w sid = None \<longrightarrow>
      create_segment_to_index_task e sid kws w = (Inl (NotFound ''Segment not found''), w))
   \<and> (fst (create_segment_to_index_task e sid kws w) = Inl x \<longrightarrow>
        (case x of
           NotFound t \<Rightarrow> t = ''Segment not found'' \<and> fault e QuerySegment = None
                          \<and> segments w sid = None
         | Exception m \<Rightarrow> fault e QuerySegment = Some m \<or> fault e CommitError = Some m
                          \<or> fault e DeleteKey = Some m))
   \<and> (fault e QuerySegment = None \<longrightarrow> fault e CommitError = None \<longrightarrow>
        fault e DeleteKey = None \<longrightarrow> segments w sid \<noteq> None \<longrightarrow>
        fst (create_segment_to_index_task e sid kws w) = Inr ())"
  by (auto simp: create_segment_to_index_task_def finally_delete_def guarded_pending split_beta
      split: option.splits exn.splits if_splits)

theorem faults_reaching_the_caller_witness:
  "create_segment_to_index_task calm ''S9'' None (sample_world ''waiting'')
     = (Inl (NotFound ''Segment not found''), sample_world ''waiting'')
   \<and> fst (create_segment_to_index_task (failing_at [AddTextsHighQuality] ''boom'') ''S1'' None
           (sample_world ''waiting'')) = Inr ()"
  using faults_reaching_the_caller [of calm "sample_world ''waiting''" "''S9''" None]
    faults_reaching_the_caller [of "failing_at [AddTextsHighQuality] ''boom''"
      "sample_world ''waiting''" "''S1''" None]
  by (simp add: failing_at_def calm_def sample_world_def sample_segment_def)

text \<open>
  The connection to the database is lost after \<open>S1\<close> was loaded: the update of line 45
  raises, the handler's commit raises as well, and that exception reaches the caller
  although the segment exists.
\<close>

theorem fault_in_handler_commit_reaches_caller:
  "segments (sample_world ''waiting'') ''S1'' \<noteq> None
   \<and> fst (create_segment_to_index_task
            (failing_at [UpdateIndexing, CommitError] ''connection lost'')
            ''S1'' None (sample_world ''waiting''))
      = Inl (Exception ''connection lost'')"
  by (simp add: create_segment_to_index_task_def guarded_def try_body_def on_exception_def
      finally_delete_def failing_at_def calm_def sample_world_def sample_segment_def)

subsection \<open>The status guard\<close>

text \<open>
  C3. When the segment exists and its status is not \<open>waiting\<close>, the task returns
  normally and the world is exactly as before: no field of the segment is changed,
  nothing is committed, no index receives a call (and the lock store is not touched).
\<close>

theorem status_guard_is_noop:
  "fault e QuerySegment = None \<Longrightarrow> segments w sid = Some seg \<Longrightarrow> status seg \<noteq> ''waiting''
   \<Longrightarrow> create_segment_to_index_task e sid kws w = (Inr (), w)"
  by (rule task_not_waiting)

theorem status_guard_is_noop_witness:
  "create_segment_to_index_task
      (failing_at [UpdateIndexing, AddTextsHighQuality, DeleteKey] ''down'')
      ''S1'' (Some [''alpha'']) (sample_world ''indexing'')
   = (Inr (), sample_world ''indexing'')"
  using status_guard_is_noop
      [of "failing_at [UpdateIndexing, AddTextsHighQuality, DeleteKey] ''down''"
        "sample_world ''indexing''" "''S1''" "sample_segment ''indexing''" "Some [''alpha'']"]
  by (simp add: failing_at_def calm_def sample_world_def sample_segment_def)

subsection \<open>Segments that are not eligible\<close>

text \<open>
  C4, as the code has it. Take a waiting segment whose dataset is missing, or whose
  document is missing, or whose document is disabled, archived or not completely
  indexed. The update and the commit of lines 45-46, the construction of the document
  and the loads of the dataset and the document are inside the \<^verbatim>\<open>try\<close> block and
  come before the checks, and the delete of line 118 is not guarded. Provided none of
  the calls made up to the check raises and the delete does not raise, the task returns
  normally; the stored segment differs from the original one only in its status, now
  \<open>indexing\<close>, and in \<open>indexing_at\<close>; the list of index calls is unchanged; the only
  other change to the world is that the marker is removed.
\<close>

theorem not_eligible_left_indexing:
  assumes "fault e QuerySegment = None" and "segments w sid = Some seg"
    and "status seg = ''waiting''"
    and "fault e UpdateIndexing = None" and "fault e CommitIndexing = None"
    and "fault e BuildDocument = None" and "fault e LoadDataset = None"
    and "segment_dataset w seg = None \<or> fault e LoadDocument = None"
    and "fault e DeleteKey = None"
    and "segment_dataset w seg = None
         \<or> (case segment_document w seg of
              None \<Rightarrow> True
            | Some d \<Rightarrow> \<not> doc_enabled d \<or> archived d \<or> indexing_status d \<noteq> ''completed'')"
  shows "create_segment_to_index_task e sid kws w =
           (Inr (),
            w\<lparr>segments := (segments w)(sid \<mapsto>
                  seg\<lparr>status := ''indexing'', indexing_at := Some (utcnow e IndexingAt)\<rparr>),
              redis_keys := redis_keys w - {indexing_cache_key sid}\<rparr>)"
proof -
  have "check_eligibility e (set_indexing e seg) (commit sid (set_indexing e seg) w) = Skip"
    using assms(7,8,10) by (rule check_eligibility_skip)
  with assms(4-6) have "try_body e kws sid seg w =
      (None, set_indexing e seg, commit sid (set_indexing e seg) w)"
    by (rule try_body_skip)
  then have "guarded e kws sid seg w =
      (None, set_indexing e seg, commit sid (set_indexing e seg) w)"
    by (simp add: guarded_def)
  with assms(1-3,9) show ?thesis
    by (simp add: task_waiting finally_delete_def commit_def set_indexing_def)
qed

theorem not_eligible_left_indexing_witness:
  "create_segment_to_index_task calm ''S1'' None
      ((sample_world ''waiting'')\<lparr>documents := [''doc-1'' \<mapsto>
          \<lparr>doc_enabled = True, archived = True, indexing_status = ''completed''\<rparr>]\<rparr>)
   = (Inr (),
      \<lparr>segments = [''S1'' \<mapsto> (sample_segment ''indexing'')\<lparr>indexing_at := Some 100\<rparr>],
       datasets = [''ds-1'' \<mapsto> ''dataset one''],
       documents = [''doc-1'' \<mapsto>
          \<lparr>doc_enabled = True, archived = True, indexing_status = ''completed''\<rparr>],
       index_calls = [],
       redis_keys = {}\<rparr>)"
  using not_eligible_left_indexing
      [of calm "(sample_world ''waiting'')\<lparr>documents := [''doc-1'' \<mapsto>
          \<lparr>doc_enabled = True, archived = True, indexing_status = ''completed''\<rparr>]\<rparr>"
        "''S1''" "sample_segment ''waiting''" None]
  by (simp add: sample_defs indexing_cache_key_def)

text \<open>
  The segment \<open>S1\<close> is waiting and its dataset is missing. When the construction of
  the document raises, the handler takes the stored segment to \<open>error\<close> and disables
  it; when the delete of the marker raises, the task does not return normally.
\<close>

theorem not_eligible_ends_in_error_or_raises:
  "status (sample_segment ''waiting'') = ''waiting''
   \<and> segment_dataset ((sample_world ''waiting'')\<lparr>datasets := Map.empty\<rparr>)
        (sample_segment ''waiting'') = None
   \<and> map_option status
        (segments (snd (create_segment_to_index_task (failing_at [BuildDocument] ''no content'')
           ''S1'' None ((sample_world ''waiting'')\<lparr>datasets := Map.empty\<rparr>))) ''S1'')
      = Some ''error''
   \<and> map_option enabled
        (segments (snd (create_segment_to_index_task (failing_at [BuildDocument] ''no content'')
           ''S1'' None ((sample_world ''waiting'')\<lparr>datasets := Map.empty\<rparr>))) ''S1'')
      = Some False
   \<and> fst (create_segment_to_index_task (failing_at [DeleteKey] ''redis down'')
           ''S1'' None ((sample_world ''waiting'')\<lparr>datasets := Map.empty\<rparr>))
      = Inl (Exception ''redis down'')"
  by (simp add: task_defs sample_defs)

subsection \<open>Terminal status of an eligible segment\<close>

text \<open>
  C5, as the code has it. Take a waiting segment that passes every eligibility check.
  The segment object ends with status \<open>completed\<close> when no call of the \<^verbatim>\<open>try\<close>
  block raised and with status \<open>error\<close> when one did, never anything else. The stored
  row follows it as far as the commits go: it is \<open>completed\<close>, with \<open>completed_at\<close>
  stamped, when nothing raised; it is \<open>error\<close> when a call raised and the handler's
  commit succeeded; and it stays \<open>indexing\<close> when a call raised and the handler's
  commit raised too.
\<close>

theorem eligible_segment_terminal_status:
  assumes "fault e QuerySegment = None" and "segments w sid = Some seg"
    and "status seg = ''waiting''"
    and "fault e UpdateIndexing = None" and "fault e CommitIndexing = None"
    and "fault e BuildDocument = None"
    and "fault e LoadDataset = None" and "fault e LoadDocument = None"
    and "segment_dataset w seg = Some ds" and "segment_document w seg = Some d"
    and "doc_enabled d" and "\<not> archived d" and "indexing_status d = ''completed''"
  shows "status (fst (snd (guarded e kws sid seg w))) =
           (if fst (try_body e kws sid seg w) = None then ''completed'' else ''error'')
       \<and> (\<exists>s. segments (snd (create_segment_to_index_task e sid kws w)) sid = Some s
             \<and> (if fst (try_body e kws sid seg w) = None
                 then status s = ''completed'' \<and> completed_at s = Some (utcnow e CompletedAt)
                 else if fault e CommitError = None then status s = ''error''
                 else status s = ''indexing''))"
proof -
  have pass: "check_eligibility e (set_indexing e seg) (commit sid (set_indexing e seg) w)
                = Pass ds"
    using assms(7-13) by (rule check_eligibility_pass)
  note body = try_body_pass [OF assms(4-6) pass]
  have stored: "segments (snd (create_segment_to_index_task e sid kws w)) sid
                  = segments (snd (snd (guarded e kws sid seg w))) sid"
    using assms(1-3) by (simp add: task_waiting)
  show ?thesis
  proof (cases "fst (try_body e kws sid seg w)")
    case None
    then have "fst (snd (try_body e kws sid seg w)) = set_completed e (set_indexing e seg)"
      and "segments (snd (snd (try_body e kws sid seg w))) sid
             = Some (set_completed e (set_indexing e seg))"
      by (auto simp: body mark_completed_eq split: option.splits if_splits)
    with None show ?thesis
      by (simp add: stored guarded_None)
  next
    case (Some m)
    have "segments (snd (snd (try_body e kws sid seg w))) sid = Some (set_indexing e seg)"
      using Some by (auto simp: body mark_completed_eq split: option.splits if_splits)
    with Some show ?thesis
      by (simp add: stored guarded_Some on_exception_eq)
  qed
qed

theorem eligible_segment_terminal_status_witness:
  "map_option status
       (segments (snd (create_segment_to_index_task calm ''S1'' None (sample_world ''waiting'')))
          ''S1'') = Some ''completed''
   \<and> map_option completed_at
       (segments (snd (create_segment_to_index_task calm ''S1'' None (sample_world ''waiting'')))
          ''S1'') = Some (Some 200)
   \<and> map_option status
       (segments (snd (create_segment_to_index_task (failing_at [AddTextsEconomy] ''boom'')
          ''S1'' None (sample_world ''waiting''))) ''S1'') = Some ''error''"
  using eligible_segment_terminal_status [where e = calm and w = "sample_world ''waiting''" and sid = "''S1''"
        and seg = "sample_segment ''waiting''" and ds = "''dataset one''" and kws = None
        and d = "\<lparr>doc_enabled = True, archived = False, indexing_status = ''completed''\<rparr>"]
    eligible_segment_terminal_status [where e = "failing_at [AddTextsEconomy] ''boom''" and w = "sample_world ''waiting''"
        and sid = "''S1''" and seg = "sample_segment ''waiting''" and ds = "''dataset one''"
        and kws = None
        and d = "\<lparr>doc_enabled = True, archived = False, indexing_status = ''completed''\<rparr>"]
  by (simp add: task_defs sample_defs)

text \<open>
  The high-quality index and then the database are out of reach: \<open>S1\<close> was waiting and
  eligible, and its stored status after the run is \<open>indexing\<close>, neither terminal status.
\<close>

theorem stuck_indexing_when_handler_commit_fails:
  "status (sample_segment ''waiting'') = ''waiting''
   \<and> map_option status
       (segments (snd (create_segment_to_index_task
          (failing_at [AddTextsHighQuality, CommitError] ''unreachable'')
          ''S1'' None (sample_world ''waiting''))) ''S1'')
     = Some ''indexing''"
  by (simp add: task_defs sample_defs)

subsection \<open>The keyword tier\<close>

text \<open>
  C6. Take an eligible waiting segment whose dataset has an economy index \<open>ix\<close>, in a
  run that reaches line 89. With a non-empty keyword list the run adds, after the
  high-quality call if there is one, exactly one call: \<^verbatim>\<open>create_segment_keywords\<close> on
  \<open>ix\<close> with the segment's node identifier and the list as given, and no
  \<^verbatim>\<open>add_texts\<close> on behalf of the economy tier. With no list or an empty one it adds
  instead \<^verbatim>\<open>add_texts\<close> of the document, without \<^verbatim>\<open>duplicate_check\<close>.
\<close>

theorem keyword_tier_branches:
  assumes "fault e QuerySegment = None" and "segments w sid = Some seg"
    and "status seg = ''waiting''"
    and "fault e UpdateIndexing = None" and "fault e CommitIndexing = None"
    and "fault e BuildDocument = None"
    and "fault e LoadDataset = None" and "fault e LoadDocument = None"
    and "segment_dataset w seg = Some ds" and "segment_document w seg = Some d"
    and "doc_enabled d" and "\<not> archived d" and "indexing_status d = ''completed''"
    and "fault e GetIndexHighQuality = None"
    and "get_index e ds ''high_quality'' = None \<or> fault e AddTextsHighQuality = None"
    and "fault e GetIndexEconomy = None"
    and "get_index e ds ''economy'' = Some ix"
  shows "(kws = Some ks \<longrightarrow> ks \<noteq> [] \<longrightarrow> fault e CreateKeywords = None \<longrightarrow>
            index_calls (snd (create_segment_to_index_task e sid kws w)) =
              index_calls w
              @ (case get_index e ds ''high_quality'' of
                   None \<Rightarrow> []
                 | Some hx \<Rightarrow> [AddTexts hx [build_document seg] (Some True)])
              @ [CreateSegmentKeywords ix (index_node_id seg) ks])
       \<and> (kws = None \<or> kws = Some [] \<longrightarrow> fault e AddTextsEconomy = None \<longrightarrow>
            index_calls (snd (create_segment_to_index_task e sid kws w)) =
              index_calls w
              @ (case get_index e ds ''high_quality'' of
                   None \<Rightarrow> []
                 | Some hx \<Rightarrow> [AddTexts hx [build_document seg] (Some True)])
              @ [AddTexts ix [build_document seg] None])"
proof -
  have pass: "check_eligibility e (set_indexing e seg) (commit sid (set_indexing e seg) w)
                = Pass ds"
    using assms(7-13) by (rule check_eligibility_pass)
  note calls = task_index_calls_pass [OF assms(1-6) pass]
  note hq = write_high_quality_ok [OF assms(14,15)]
  show ?thesis
    using assms(16,17)
    by (auto simp: calls fan_out_def hq write_economy_def keywords_given_def)
qed

theorem keyword_tier_branches_witness:
  "index_calls (snd (create_segment_to_index_task calm ''S1'' (Some [''alpha'', ''beta''])
      (sample_world ''waiting'')))
     = [AddTexts ''vector'' [build_document (sample_segment ''waiting'')] (Some True),
        CreateSegmentKeywords ''keyword_table'' ''node-1'' [''alpha'', ''beta'']]
   \<and> index_calls (snd (create_segment_to_index_task calm ''S1'' (Some [])
      (sample_world ''waiting'')))
     = [AddTexts ''vector'' [build_document (sample_segment ''waiting'')] (Some True),
        AddTexts ''keyword_table'' [build_document (sample_segment ''waiting'')] None]"
  using keyword_tier_branches [where e = calm and w = "sample_world ''waiting''" and sid = "''S1''"
        and seg = "sample_segment ''waiting''" and ds = "''dataset one''"
        and d = "\<lparr>doc_enabled = True, archived = False, indexing_status = ''completed''\<rparr>"
        and ix = "''keyword_table''" and kws = "Some [''alpha'', ''beta'']"
        and ks = "[''alpha'', ''beta'']"]
    keyword_tier_branches [where e = calm and w = "sample_world ''waiting''" and sid = "''S1''"
        and seg = "sample_segment ''waiting''" and ds = "''dataset one''"
        and d = "\<lparr>doc_enabled = True, archived = False, indexing_status = ''completed''\<rparr>"
        and ix = "''keyword_table''" and kws = "Some []" and ks = "[]"]
  by (simp add: sample_defs)

subsection \<open>Recording a fault\<close>

text \<open>
  C7, as the code has it. Let a call of the \<^verbatim>\<open>try\<close> block raise a fault described
  by \<open>m\<close>, leaving the segment object as \<open>seg1\<close>; this covers every fault raised after
  the segment entered \<open>indexing\<close> and passed eligibility. Provided the handler's own
  commit succeeds, the stored segment is \<open>seg1\<close> with status \<open>error\<close>, \<open>enabled\<close> false,
  \<open>disabled_at\<close> the current time and \<open>error\<close> the description \<open>m\<close>, and the fault is
  not raised again: the task returns normally unless the delete of the marker raises.
\<close>

theorem fault_recorded_when_commit_succeeds:
  assumes "fault e QuerySegment = None" and "segments w sid = Some seg"
    and "status seg = ''waiting''"
    and "try_body e kws sid seg w = (Some m, seg1, w1)"
    and "fault e CommitError = None"
  shows "segments (snd (create_segment_to_index_task e sid kws w)) sid
           = Some (seg1\<lparr>enabled := False, disabled_at := Some (utcnow e DisabledAt),
                       status := ''error'', error := Some m\<rparr>)
       \<and> fst (create_segment_to_index_task e sid kws w)
           = (case fault e DeleteKey of None \<Rightarrow> Inr () | Some d \<Rightarrow> Inl (Exception d))"
proof -
  have "guarded e kws sid seg w = (None, set_error e m seg1, commit sid (set_error e m seg1) w1)"
    using assms(4,5) by (simp add: guarded_def on_exception_eq)
  then show ?thesis
    using assms(1-3)
    by (simp add: task_waiting finally_delete_def set_error_def split: option.split)
qed

theorem fault_recorded_when_commit_succeeds_witness:
  "segments (snd (create_segment_to_index_task (failing_at [AddTextsHighQuality] ''boom'')
      ''S1'' None (sample_world ''waiting''))) ''S1''
     = Some \<lparr>content = ''some text'', index_node_id = ''node-1'', index_node_hash = ''hash-1'',
             document_id = ''doc-1'', dataset_id = ''ds-1'', status = ''error'',
             enabled = False, indexing_at = Some 100, completed_at = None,
             disabled_at = Some 300, error = Some ''boom''\<rparr>
   \<and> fst (create_segment_to_index_task (failing_at [AddTextsHighQuality] ''boom'')
      ''S1'' None (sample_world ''waiting'')) = Inr ()"
  using fault_recorded_when_commit_succeeds [where e = "failing_at [AddTextsHighQuality] ''boom''"
        and w = "sample_world ''waiting''" and sid = "''S1''"
        and seg = "sample_segment ''waiting''" and kws = None and m = "''boom''"
        and ?seg1.0 = "(sample_segment ''indexing'')\<lparr>indexing_at := Some 100\<rparr>"
        and ?w1.0 = "(sample_world ''waiting'')\<lparr>segments :=
             [''S1'' \<mapsto> (sample_segment ''indexing'')\<lparr>indexing_at := Some 100\<rparr>]\<rparr>"]
  by (simp add: task_defs sample_defs)

text \<open>
  The connection to the database is lost before the commit of line 101, a persistence
  fault after eligibility: the handler's commit raises as well, so the stored segment
  keeps status \<open>indexing\<close> with no error recorded, and the exception reaches the caller.
\<close>

theorem fault_not_recorded_when_handler_commit_fails:
  "map_option status
       (segments (snd (create_segment_to_index_task
          (failing_at [CommitCompleted, CommitError] ''connection lost'')
          ''S1'' None (sample_world ''waiting''))) ''S1'')
     = Some ''indexing''
   \<and> map_option error
       (segments (snd (create_segment_to_index_task
          (failing_at [CommitCompleted, CommitError] ''connection lost'')
          ''S1'' None (sample_world ''waiting''))) ''S1'')
     = Some None
   \<and> fst (create_segment_to_index_task
          (failing_at [CommitCompleted, CommitError] ''connection lost'')
          ''S1'' None (sample_world ''waiting''))
     = Inl (Exception ''connection lost'')"
  by (simp add: task_defs sample_defs)

subsection \<open>The order of the tiers\<close>

text \<open>
  C8. For an eligible waiting segment: when no index call raises, the calls added by
  the run are the \<^verbatim>\<open>add_texts\<close> with \<^verbatim>\<open>duplicate_check=True\<close> on the
  high-quality index, if the dataset has one, followed by the call on the economy
  index, if it has one; a tier that is not configured adds no call and no error, and
  the task returns normally when the later calls succeed too. When the write to the
  high-quality index raises, the run adds no call at all, whatever the economy tier
  would have done, and the fault goes to the handler.
\<close>

theorem tiers_in_sequence:
  assumes "fault e QuerySegment = None" and "segments w sid = Some seg"
    and "status seg = ''waiting''"
    and "fault e UpdateIndexing = None" and "fault e CommitIndexing = None"
    and "fault e BuildDocument = None"
    and "fault e LoadDataset = None" and "fault e LoadDocument = None"
    and "segment_dataset w seg = Some ds" and "segment_document w seg = Some d"
    and "doc_enabled d" and "\<not> archived d" and "indexing_status d = ''completed''"
    and "fault e GetIndexHighQuality = None"
  shows "(fault e AddTextsHighQuality = None \<longrightarrow> fault e GetIndexEconomy = None \<longrightarrow>
          fault e CreateKeywords = None \<longrightarrow> fault e AddTextsEconomy = None \<longrightarrow>
            index_calls (snd (create_segment_to_index_task e sid kws w)) =
              index_calls w
              @ (case get_index e ds ''high_quality'' of
                   None \<Rightarrow> []
                 | Some hx \<Rightarrow> [AddTexts hx [build_document seg] (Some True)])
              @ (case get_index e ds ''economy'' of
                   None \<Rightarrow> []
                 | Some ix \<Rightarrow>
                     [if keywords_given kws
                      then CreateSegmentKeywords ix (index_node_id seg) (the kws)
                      else AddTexts ix [build_document seg] None])
            \<and> (fault e UpdateCompleted = None \<longrightarrow> fault e CommitCompleted = None \<longrightarrow>
                fault e DeleteKey = None \<longrightarrow>
                  fst (create_segment_to_index_task e sid kws w) = Inr ()))
       \<and> (get_index e ds ''high_quality'' \<noteq> None \<longrightarrow> fault e AddTextsHighQuality = Some m \<longrightarrow>
            index_calls (snd (create_segment_to_index_task e sid kws w)) = index_calls w
            \<and> fst (try_body e kws sid seg w) = Some m)"
proof -
  have pass: "check_eligibility e (set_indexing e seg) (commit sid (set_indexing e seg) w)
                = Pass ds"
    using assms(7-13) by (rule check_eligibility_pass)
  note calls = task_index_calls_pass [OF assms(1-6) pass]
  note body = try_body_pass [OF assms(4-6) pass]
  have ok: "fst (create_segment_to_index_task e sid kws w) = Inr ()"
    if "fault e AddTextsHighQuality = None" "fault e GetIndexEconomy = None"
      "fault e CreateKeywords = None" "fault e AddTextsEconomy = None"
      "fault e UpdateCompleted = None" "fault e CommitCompleted = None"
      "fault e DeleteKey = None"
  proof -
    have "fst (try_body e kws sid seg w) = None"
      using that assms(14)
      by (simp add: body fan_out_def write_high_quality_ok write_economy_ok mark_completed_eq)
    then have "fst (guarded e kws sid seg w) = None"
      by (simp add: guarded_pending)
    then show ?thesis
      using assms(1-3) that(7) by (simp add: task_waiting finally_delete_def)
  qed
  have seq: "index_calls (snd (create_segment_to_index_task e sid kws w)) =
      index_calls w
      @ (case get_index e ds ''high_quality'' of
           None \<Rightarrow> []
         | Some hx \<Rightarrow> [AddTexts hx [build_document seg] (Some True)])
      @ (case get_index e ds ''economy'' of
           None \<Rightarrow> []
         | Some ix \<Rightarrow>
             [if keywords_given kws
              then CreateSegmentKeywords ix (index_node_id seg) (the kws)
              else AddTexts ix [build_document seg] None])"
    if "fault e AddTextsHighQuality = None" "fault e GetIndexEconomy = None"
      "fault e CreateKeywords = None" "fault e AddTextsEconomy = None"
    using that assms(14)
    by (simp add: calls fan_out_def write_high_quality_ok write_economy_ok
        split: option.split)
  have stop: "index_calls (snd (create_segment_to_index_task e sid kws w)) = index_calls w
      \<and> fst (try_body e kws sid seg w) = Some m"
    if "get_index e ds ''high_quality'' \<noteq> None" "fault e AddTextsHighQuality = Some m"
  proof -
    from that(1) obtain hx where "get_index e ds ''high_quality'' = Some hx" by blast
    with assms(14) that(2) show ?thesis
      by (simp add: calls body fan_out_def write_high_quality_raises)
  qed
  from ok seq stop show ?thesis by blast
qed

theorem tiers_in_sequence_witness:
  "index_calls (snd (create_segment_to_index_task calm ''S1'' None (sample_world ''waiting'')))
     = [AddTexts ''vector'' [build_document (sample_segment ''waiting'')] (Some True),
        AddTexts ''keyword_table'' [build_document (sample_segment ''waiting'')] None]
   \<and> fst (create_segment_to_index_task calm ''S1'' None (sample_world ''waiting'')) = Inr ()
   \<and> index_calls (snd (create_segment_to_index_task (failing_at [AddTextsHighQuality] ''boom'')
        ''S1'' None (sample_world ''waiting''))) = []"
  using tiers_in_sequence [where e = calm and w = "sample_world ''waiting''" and sid = "''S1''"
        and seg = "sample_segment ''waiting''" and ds = "''dataset one''"
        and d = "\<lparr>doc_enabled = True, archived = False, indexing_status = ''completed''\<rparr>"
        and kws = None and m = "''boom''"]
    tiers_in_sequence [where e = "failing_at [AddTextsHighQuality] ''boom''"
        and w = "sample_world ''waiting''" and sid = "''S1''"
        and seg = "sample_segment ''waiting''" and ds = "''dataset one''"
        and d = "\<lparr>doc_enabled = True, archived = False, indexing_status = ''completed''\<rparr>"
        and kws = None and m = "''boom''"]
  by (simp add: sample_defs keywords_given_def)

subsection \<open>A second invocation\<close>

text \<open>
  C9. Let the first invocation find the segment and move its stored status away from
  \<open>waiting\<close>: it was not waiting to begin with, or the update and the commit of lines
  45-46 succeeded, or the handler's commit succeeded. Then a second invocation for the
  same segment, with any keywords and whatever its calls would do, returns normally
  and leaves the world exactly as the first invocation left it.
\<close>

theorem second_invocation_is_absorbed:
  assumes "fault e1 QuerySegment = None" and "fault e2 QuerySegment = None"
    and "segments w sid = Some seg"
    and "status seg \<noteq> ''waiting'' \<or> fault e1 CommitError = None
         \<or> fault e1 UpdateIndexing = None \<and> fault e1 CommitIndexing = None"
  shows "create_segment_to_index_task e2 sid kws2
            (snd (create_segment_to_index_task e1 sid kws1 w))
         = (Inr (), snd (create_segment_to_index_task e1 sid kws1 w))"
proof (cases "status seg = ''waiting''")
  case False
  with assms(1,3) have "create_segment_to_index_task e1 sid kws1 w = (Inr (), w)"
    by (rule task_not_waiting)
  moreover from assms(2,3) False have "create_segment_to_index_task e2 sid kws2 w = (Inr (), w)"
    by (rule task_not_waiting)
  ultimately show ?thesis by simp
next
  case True
  with assms(4) have moved: "fault e1 CommitError = None
      \<or> fault e1 UpdateIndexing = None \<and> fault e1 CommitIndexing = None"
    by simp
  from guarded_stored_not_waiting [OF moved, of kws1 sid seg w]
  obtain s where s: "segments (snd (snd (guarded e1 kws1 sid seg w))) sid = Some s"
    "status s \<noteq> ''waiting''"
    by blast
  have "segments (snd (create_segment_to_index_task e1 sid kws1 w)) sid = Some s"
    using s(1) assms(1,3) True by (simp add: task_waiting)
  with assms(2) show ?thesis
    using s(2) by (rule task_not_waiting)
qed

theorem second_invocation_is_absorbed_witness:
  "create_segment_to_index_task calm ''S1'' (Some [''alpha''])
      (snd (create_segment_to_index_task (failing_at [CommitCompleted] ''boom'')
              ''S1'' None (sample_world ''waiting'')))
   = (Inr (), snd (create_segment_to_index_task (failing_at [CommitCompleted] ''boom'')
                     ''S1'' None (sample_world ''waiting'')))"
  using second_invocation_is_absorbed [where ?e1.0 = "failing_at [CommitCompleted] ''boom''" and ?e2.0 = calm
        and w = "sample_world ''waiting''" and sid = "''S1''"
        and seg = "sample_segment ''waiting''" and ?kws1.0 = None
        and ?kws2.0 = "Some [''alpha'']"]
  by (simp add: sample_defs)

subsection \<open>What the handler leaves alone\<close>

text \<open>
  C10. When the \<^verbatim>\<open>try\<close> block raises and leaves the segment object as \<open>seg1\<close>, the
  handler changes only \<open>enabled\<close>, \<open>disabled_at\<close>, \<open>status\<close> and \<open>error\<close>. The content,
  the node identifier and hash, and the document and dataset identifiers are those of
  the segment as loaded; \<open>indexing_at\<close> and \<open>completed_at\<close> are as the block left them,
  \<open>indexing_at\<close> being the stamp of line 43 once the update of line 45 went through.
  The only change to the world is the commit of that object, when it succeeds.
\<close>

theorem handler_changes_four_fields:
  assumes "try_body e kws sid seg w = (Some m, seg1, w1)"
    and "guarded e kws sid seg w = (pending, seg', w')"
  shows "seg' = seg1\<lparr>enabled := False, disabled_at := Some (utcnow e DisabledAt),
                    status := ''error'', error := Some m\<rparr>
       \<and> content seg' = content seg \<and> index_node_id seg' = index_node_id seg
       \<and> index_node_hash seg' = index_node_hash seg
       \<and> document_id seg' = document_id seg \<and> dataset_id seg' = dataset_id seg
       \<and> indexing_at seg' = indexing_at seg1 \<and> completed_at seg' = completed_at seg1
       \<and> indexing_at seg1 =
           (if fault e UpdateIndexing = None then Some (utcnow e IndexingAt) else indexing_at seg)
       \<and> w' = (if fault e CommitError = None
               then w1\<lparr>segments := (segments w1)(sid \<mapsto> seg')\<rparr> else w1)"
proof -
  have g: "guarded e kws sid seg w = on_exception e m sid seg1 w1"
    using assms(1) by (simp add: guarded_def)
  have seg': "seg' = set_error e m seg1"
    and w': "w' = (if fault e CommitError = None then commit sid (set_error e m seg1) w1 else w1)"
    using assms(2) g by (auto simp: on_exception_eq)
  have "seg1 = seg \<or> seg1 = set_indexing e seg \<or> seg1 = set_completed e (set_indexing e seg)"
    using try_body_object [of e kws sid seg w] assms(1) by simp
  then have same: "content seg1 = content seg \<and> index_node_id seg1 = index_node_id seg
      \<and> index_node_hash seg1 = index_node_hash seg \<and> document_id seg1 = document_id seg
      \<and> dataset_id seg1 = dataset_id seg"
    by auto
  have at: "indexing_at seg1 =
      (if fault e UpdateIndexing = None then Some (utcnow e IndexingAt) else indexing_at seg)"
    using try_body_indexing_at [of e kws sid seg w] assms(1) by simp
  show ?thesis
    using same at by (simp add: seg' w' set_error_def commit_def)
qed

theorem handler_changes_four_fields_witness:
  "fst (snd (guarded (failing_at [CommitCompleted] ''boom'') None ''S1''
               (sample_segment ''waiting'') (sample_world ''waiting'')))
     = \<lparr>content = ''some text'', index_node_id = ''node-1'', index_node_hash = ''hash-1'',
        document_id = ''doc-1'', dataset_id = ''ds-1'', status = ''error'',
        enabled = False, indexing_at = Some 100, completed_at = Some 200,
        disabled_at = Some 300, error = Some ''boom''\<rparr>"
  using handler_changes_four_fields [where e = "failing_at [CommitCompleted] ''boom''" and kws = None
        and sid = "''S1''" and seg = "sample_segment ''waiting''"
        and w = "sample_world ''waiting''" and m = "''boom''"
        and ?seg1.0 = "fst (snd (try_body (failing_at [CommitCompleted] ''boom'') None ''S1''
               (sample_segment ''waiting'') (sample_world ''waiting'')))"
        and ?w1.0 = "snd (snd (try_body (failing_at [CommitCompleted] ''boom'') None ''S1''
               (sample_segment ''waiting'') (sample_world ''waiting'')))"
        and pending = None
        and seg' = "fst (snd (guarded (failing_at [CommitCompleted] ''boom'') None ''S1''
               (sample_segment ''waiting'') (sample_world ''waiting'')))"
        and w' = "snd (snd (guarded (failing_at [CommitCompleted] ''boom'') None ''S1''
               (sample_segment ''waiting'') (sample_world ''waiting'')))"]
  by (simp add: task_defs sample_defs)

end
